theory Spec2Isabelle
  imports Complex_Main "HOL-Library.AList"
begin

section \<open>Conventions of the embedding\<close>

text \<open>
  The battery simulation is Python over \<^verbatim>\<open>float\<close> and numpy arrays. Floating-point numbers
  are modelled by \<^typ>\<open>real\<close> (finite values, exact arithmetic); Python's integers by
  \<^typ>\<open>int\<close>. Every exception the modelled code can raise is a value of \<open>py_error\<close>, and a
  function that can raise returns \<open>py_error + 'a\<close> with \<open>Inl\<close> for the exception.
\<close>

datatype py_error = IndexError | KeyError | ValueError | TypeError | ZeroDivisionError

section \<open>The current profile and its interpolation (simulator.py)\<close>

text \<open>
  \<^verbatim>\<open>self.current_profile\<close> is a Python dict from time to current. A dict is represented by
  the list of its items in insertion order; \<open>dict_comp\<close> is the dict comprehension
  \<^verbatim>\<open>{float(k): float(v) for k, v in items}\<close>, where a repeated key keeps its position
  and takes the later value.
\<close>

type_synonym profile = "(real \<times> real) list"


definition dict_get :: "profile \<Rightarrow> real \<Rightarrow> py_error + real" where
  "dict_get d k = (case map_of d k of None \<Rightarrow> Inl KeyError | Some v \<Rightarrow> Inr v)"

text \<open>
  The \<^verbatim>\<open>for i in range(len(times) - 1)\<close> loop of \<^verbatim>\<open>get_current\<close>: it walks the consecutive
  pairs of the sorted timestamps and returns from the first pair that brackets \<open>t\<close>. Falling
  out of the loop is Python's implicit \<^verbatim>\<open>return None\<close>, the value \<open>Inr None\<close>.
\<close>

fun bracket_loop :: "profile \<Rightarrow> real list \<Rightarrow> real \<Rightarrow> py_error + real option" where
  "bracket_loop d (t1 # t2 # ts) t =
     (if t1 \<le> t \<and> t < t2 then
        (case dict_get d t1 of
           Inl e \<Rightarrow> Inl e
         | Inr i1 \<Rightarrow>
            (case dict_get d t2 of
               Inl e \<Rightarrow> Inl e
             | Inr i2 \<Rightarrow>
                (if t2 - t1 = 0 then Inl ZeroDivisionError
                 else Inr (Some (i1 + (i2 - i1) * (t - t1) / (t2 - t1))))))
      else bracket_loop d (t2 # ts) t)"
| "bracket_loop d ts t = Inr None"

definition get_current :: "profile \<Rightarrow> real \<Rightarrow> py_error + real option" where
  "get_current d t =
     (let times = sort (map fst d) in
      if times = [] then Inl IndexError
      else if t \<le> hd times then
        (case dict_get d (hd times) of Inl e \<Rightarrow> Inl e | Inr v \<Rightarrow> Inr (Some v))
      else if t \<ge> last times then
        (case dict_get d (last times) of Inl e \<Rightarrow> Inl e | Inr v \<Rightarrow> Inr (Some v))
      else bracket_loop d times t)"

section \<open>numpy helpers\<close>

text \<open>
  \<^verbatim>\<open>np.linspace(start, stop, num)\<close> with the default \<^verbatim>\<open>endpoint=True\<close>: a negative \<open>num\<close>
  raises \<^verbatim>\<open>ValueError\<close>; otherwise the samples are \<open>start + i * step\<close> with
  \<open>step = (stop - start) / (num - 1)\<close>, and for \<open>num > 1\<close> the last sample is overwritten by
  \<open>stop\<close>. Division of arrays by zero gives \<open>inf\<close> or \<open>nan\<close> with a warning in numpy and never
  raises; HOL's \<open>x / 0 = 0\<close> stands in for it, and no theorem below depends on the value
  of a division by zero.
\<close>

definition linspace_vals :: "real \<Rightarrow> real \<Rightarrow> nat \<Rightarrow> real list" where
  "linspace_vals start stop n =
     (if n = 0 then []
      else if n = 1 then [start]
      else map (\<lambda>i. start + real i * ((stop - start) / real (n - 1))) [0..<n - 1] @ [stop])"

definition linspace :: "real \<Rightarrow> real \<Rightarrow> int \<Rightarrow> py_error + real list" where
  "linspace start stop num =
     (if num < 0 then Inl ValueError else Inr (linspace_vals start stop (nat num)))"

section \<open>The battery cell and the discharge model (models.py, views.py)\<close>

text \<open>
  \<^verbatim>\<open>BatteryCell\<close>: the nullable columns (\<^verbatim>\<open>null=True\<close>) are options. The field \<^verbatim>\<open>length\<close> is
  named \<open>cell_length\<close> here, since \<open>length\<close> is the list function.
\<close>

record battery_cell =
  cell_type :: string
  form_factor :: string
  cell_length :: real
  diameter :: "real option"
  height :: "real option"
  width :: "real option"
  volume :: "real option"
  nominal_voltage :: real
  capacity :: real
  energy_density :: real
  internal_resistance :: real
  heat_resistance :: real
  max_discharge_current :: real
  max_charge_current :: real
  cycle_life :: int

text \<open>
  A stored series is the dict \<^verbatim>\<open>{'time': [...], '<quantity>': [...]}\<close> handed to
  \<^verbatim>\<open>json.dumps\<close>; \<^verbatim>\<open>resistance_data\<close> carries the SOC fraction as a third entry.
\<close>

record series =
  time_axis :: "real list"
  samples :: "real list"

record resistance_series = series +
  soc_fraction :: "real list"

record simulation_result =
  sim_cell :: battery_cell
  load_resistance :: real
  initial_soc :: real
  temperature :: real
  simulation_duration :: int
  emf_data :: "series option"
  terminal_voltage_data :: "series option"
  current_data :: "series option"
  resistance_data :: "resistance_series option"
  soc_data :: "series option"
  temperature_data :: "series option"

text \<open>
  \<^verbatim>\<open>run_battery_simulation(simulation)\<close> fills the six result fields of its argument; the model
  returns the updated record. The numpy arrays are lists and the vectorised operations are
  \<open>map\<close> and \<open>map2\<close>.
\<close>

definition run_battery_simulation :: "simulation_result \<Rightarrow> py_error + simulation_result" where
  "run_battery_simulation simulation =
     (let cell = sim_cell simulation;
          duration_minutes = simulation_duration simulation;
          load_res = load_resistance simulation;
          initial_soc_frac = initial_soc simulation / 100;
          ambient_temp = temperature simulation
      in case linspace 0 (of_int duration_minutes) (duration_minutes * 6) of
           Inl e \<Rightarrow> Inl e
         | Inr time \<Rightarrow>
            (let time_hours = map (\<lambda>t. t / 60) time;
                 nominal_v = nominal_voltage cell;
                 capacity_mah = capacity cell;
                 capacity_ah = capacity_mah / 1000;
                 base_internal_resistance = internal_resistance cell / 1000;
                 c_rate = 0.2;
                 discharge_current = capacity_ah * c_rate;
                 soc_linear = map (\<lambda>th. initial_soc_frac - (th * c_rate / 5)) time_hours;
                 soc = map (\<lambda>s. max s 0) soc_linear;
                 int_res = map (\<lambda>s. base_internal_resistance * (1 + 0.5 * (1 - s))) soc;
                 emf = map (\<lambda>s. nominal_v * (0.9 + 0.2 * s)) soc;
                 terminal_voltage = map2 (\<lambda>e r. e - (discharge_current * r)) emf int_res;
                 current = map2 (\<lambda>v r. v / (load_res + r)) terminal_voltage int_res;
                 heat_generated = map2 (\<lambda>i r. i ^ 2 * r) current int_res;
                 temp_rise = map (\<lambda>h. h / heat_resistance cell) heat_generated;
                 temperature_c = map (\<lambda>r. ambient_temp + r) temp_rise
             in Inr (simulation
                  \<lparr> emf_data := Some \<lparr>time_axis = time, samples = emf\<rparr>,
                    terminal_voltage_data :=
                      Some \<lparr>time_axis = time, samples = terminal_voltage\<rparr>,
                    current_data := Some \<lparr>time_axis = time, samples = current\<rparr>,
                    resistance_data :=
                      Some \<lparr>time_axis = time, samples = int_res, soc_fraction = soc\<rparr>,
                    soc_data := Some \<lparr>time_axis = time, samples = map (\<lambda>s. s * 100) soc\<rparr>,
                    temperature_data :=
                      Some \<lparr>time_axis = time, samples = temperature_c\<rparr> \<rparr>)))"

text \<open>
  The parameters the specification calls valid: positive load resistance, positive duration,
  initial SOC within 0 and 100 percent. The code does not check them.
\<close>

definition valid_run_parameters :: "simulation_result \<Rightarrow> bool" where
  "valid_run_parameters simulation =
     (0 < load_resistance simulation \<and> 0 < simulation_duration simulation \<and>
      0 \<le> initial_soc simulation \<and> initial_soc simulation \<le> 100)"

text \<open>The default lithium iron phosphate cell that \<^verbatim>\<open>index\<close> creates, and a one-minute run.\<close>

definition default_cell :: battery_cell where
  "default_cell =
     \<lparr> cell_type = ''li_ion_phosphate'', form_factor = ''cylindrical'', cell_length = 65,
       diameter = Some 18, height = None, width = None, volume = None,
       nominal_voltage = 3.2, capacity = 2500, energy_density = 120,
       internal_resistance = 25, heat_resistance = 10, max_discharge_current = 10,
       max_charge_current = 5, cycle_life = 2000 \<rparr>"

definition sample_run :: simulation_result where
  "sample_run =
     \<lparr> sim_cell = default_cell, load_resistance = 1, initial_soc = 100, temperature = 25,
       simulation_duration = 1, emf_data = None, terminal_voltage_data = None,
       current_data = None, resistance_data = None, soc_data = None,
       temperature_data = None \<rparr>"




section \<open>The thermal simulator (simulator.py)\<close>


text \<open>
  The mesh sizes \<^verbatim>\<open>self.nr = 10\<close> and \<^verbatim>\<open>self.nz = 20\<close> are literals of the constructor and are
  never assigned again. A numpy array of shape \<open>(nr, nz)\<close> is a function from the two
  indices to the entry; the code reads and writes indices below \<open>nr\<close> and \<open>nz\<close> only, and
  the index \<open>-1\<close> is \<open>nr - 1\<close> or \<open>nz - 1\<close>.
\<close>

definition nr :: nat where "nr = 10"

definition nz :: nat where "nz = 20"

type_synonym grid = "nat \<Rightarrow> nat \<Rightarrow> real"

definition tolist :: "grid \<Rightarrow> real list list" where
  "tolist g = map (\<lambda>ir. map (\<lambda>jz. g ir jz) [0..<nz]) [0..<nr]"

definition np_min :: "grid \<Rightarrow> real" where
  "np_min g = Min (set (concat (tolist g)))"

definition np_max :: "grid \<Rightarrow> real" where
  "np_max g = Max (set (concat (tolist g)))"

text \<open>The dict that \<^verbatim>\<open>get_temperature_data\<close> returns and the callback receives.\<close>

record snapshot =
  snap_time :: real
  snap_current :: "real option"
  center_temp :: real
  surface_temp :: real
  top_temp :: real
  bottom_temp :: real
  temp_field :: "real list list"
  min_temp :: real
  max_temp :: real

text \<open>
  The simulator object. \<open>k_cond\<close>, \<open>cp_heat\<close> and \<open>T_grid\<close> are the attributes \<^verbatim>\<open>k\<close>, \<^verbatim>\<open>cp\<close>
  and \<^verbatim>\<open>T\<close>; \<open>sim_height\<close> and \<open>sim_capacity\<close> are \<^verbatim>\<open>height\<close> and \<^verbatim>\<open>capacity\<close>. \<open>current\<close> is
  \<open>None\<close> when \<^verbatim>\<open>get_current\<close> returned Python's \<^verbatim>\<open>None\<close>. \<open>callback\<close> tells whether a callback
  was given, and \<open>delivered\<close> is the sequence of snapshots the callback has been called
  with, oldest first.
\<close>

record simulator =
  radius :: real
  sim_height :: real
  k_cond :: real
  cp_heat :: real
  rho :: real
  T_init :: real
  T_amb :: real
  sim_capacity :: real
  voltage :: real
  resistance :: real
  dt :: real
  max_time :: real
  current_profile :: profile
  mesh_r :: "real list"
  mesh_z :: "real list"
  T_grid :: grid
  current_time :: real
  current :: "real option"
  running :: bool
  paused :: bool
  callback :: bool
  delivered :: "snapshot list"


text \<open>
  \<^verbatim>\<open>calculate_heat_generation\<close>: \<^verbatim>\<open>current**2\<close> raises \<^verbatim>\<open>TypeError\<close> on \<^verbatim>\<open>None\<close>, and the division
  of two Python floats raises \<^verbatim>\<open>ZeroDivisionError\<close> when the core volume is zero. The slice
  \<^verbatim>\<open>[0:nr//3, :]\<close> is the rows below \<open>nr div 3\<close>.
\<close>

definition calculate_heat_generation :: "simulator \<Rightarrow> real option \<Rightarrow> py_error + grid" where
  "calculate_heat_generation s c =
     (case c of
        None \<Rightarrow> Inl TypeError
      | Some amps \<Rightarrow>
         (let joule_heat = amps ^ 2 * resistance s;
              core = pi * (radius s / 3) ^ 2 * sim_height s
          in if core = 0 then Inl ZeroDivisionError
             else Inr (\<lambda>ir jz. if ir < nr div 3 then joule_heat / core else 0)))"

text \<open>
  The body of the two nested \<^verbatim>\<open>for\<close> loops of \<^verbatim>\<open>update_temperature\<close>: the new value of the
  interior node \<open>(ir, jz)\<close>, read from the previous field.
\<close>

definition interior_value :: "simulator \<Rightarrow> grid \<Rightarrow> grid \<Rightarrow> real \<Rightarrow> nat \<Rightarrow> nat \<Rightarrow> real" where
  "interior_value s T_prev q alpha ir jz =
     (let r_node = mesh_r s ! ir;
          dr = mesh_r s ! 1 - mesh_r s ! 0;
          dz = mesh_z s ! 1 - mesh_z s ! 0;
          d2T_dr2 = (T_prev (ir + 1) jz - 2 * T_prev ir jz + T_prev (ir - 1) jz) / dr ^ 2;
          dT_dr = (T_prev (ir + 1) jz - T_prev (ir - 1) jz) / (2 * dr);
          d2T_dz2 = (T_prev ir (jz + 1) - 2 * T_prev ir jz + T_prev ir (jz - 1)) / dz ^ 2;
          dT_dt = alpha * (d2T_dr2 + dT_dr / r_node + d2T_dz2) + q ir jz / (rho s * cp_heat s)
      in T_prev ir jz + dT_dt * dt s)"

definition interior_loops :: "simulator \<Rightarrow> grid \<Rightarrow> grid \<Rightarrow> real \<Rightarrow> grid \<Rightarrow> grid" where
  "interior_loops s T_prev q alpha T_new =
     fold (\<lambda>ir g.
        fold (\<lambda>jz g'. g'(ir := (g' ir)(jz := interior_value s T_prev q alpha ir jz)))
          [1..<nz - 1] g)
       [1..<nr - 1] T_new"

text \<open>
  The four boundary assignments, in the order of the source; each right-hand side is
  evaluated on the field as the assignments before it left it.
\<close>

definition boundary_conditions :: "simulator \<Rightarrow> grid \<Rightarrow> grid" where
  "boundary_conditions s T_new =
     (let dr = mesh_r s ! 1 - mesh_r s ! 0;
          dz = mesh_z s ! 1 - mesh_z s ! 0;
          h = 10;
          T1 = (\<lambda>ir jz. if ir = 0 then T_new 1 jz else T_new ir jz);
          T2 = (\<lambda>ir jz. if ir = nr - 1
                  then T1 (nr - 2) jz - dr * h / k_cond s * (T1 (nr - 2) jz - T_amb s)
                  else T1 ir jz);
          T3 = (\<lambda>ir jz. if jz = 0
                  then T2 ir 1 - dz * h / k_cond s * (T2 ir 1 - T_amb s)
                  else T2 ir jz);
          T4 = (\<lambda>ir jz. if jz = nz - 1
                  then T3 ir (nz - 2) - dz * h / k_cond s * (T3 ir (nz - 2) - T_amb s)
                  else T3 ir jz)
      in T4)"

definition update_temperature :: "simulator \<Rightarrow> py_error + simulator" where
  "update_temperature s =
     (let T_prev = T_grid s in
      case calculate_heat_generation s (current s) of
        Inl e \<Rightarrow> Inl e
      | Inr q \<Rightarrow>
         (if rho s * cp_heat s = 0 then Inl ZeroDivisionError
          else
            (let alpha = k_cond s / (rho s * cp_heat s);
                 T_new = interior_loops s T_prev q alpha (\<lambda>ir jz. 0)
             in Inr (s\<lparr>T_grid := boundary_conditions s T_new\<rparr>))))"

definition get_temperature_data :: "simulator \<Rightarrow> snapshot" where
  "get_temperature_data s =
     \<lparr> snap_time = current_time s,
       snap_current = current s,
       center_temp = T_grid s 0 (nz div 2),
       surface_temp = T_grid s (nr - 1) (nz div 2),
       top_temp = T_grid s (nr div 2) (nz - 1),
       bottom_temp = T_grid s (nr div 2) 0,
       temp_field = tolist (T_grid s),
       min_temp = np_min (T_grid s),
       max_temp = np_max (T_grid s) \<rparr>"

subsection \<open>The simulation loop and its controls\<close>

definition pause :: "simulator \<Rightarrow> simulator" where
  "pause s = s\<lparr>paused := True\<rparr>"

definition resume :: "simulator \<Rightarrow> simulator" where
  "resume s = s\<lparr>paused := False\<rparr>"

definition stop :: "simulator \<Rightarrow> simulator" where
  "stop s = s\<lparr>running := False\<rparr>"

text \<open>The condition of the \<^verbatim>\<open>while\<close> loop of \<^verbatim>\<open>run_simulation\<close>.\<close>

definition loop_guard :: "simulator \<Rightarrow> bool" where
  "loop_guard s = (running s \<and> current_time s < max_time s)"

text \<open>
  One pass through the body of the loop. An exception leaves the loop with the object as the
  statements before the raise left it (\<open>Inl\<close> carries both). A current of \<^verbatim>\<open>None\<close> is stored
  and raises in \<^verbatim>\<open>update_temperature\<close>. The \<^verbatim>\<open>time.sleep\<close> has no effect on the state.
\<close>

definition loop_body :: "simulator \<Rightarrow> py_error \<times> simulator + simulator" where
  "loop_body s =
     (if \<not> paused s then
        (case get_current (current_profile s) (current_time s) of
           Inl e \<Rightarrow> Inl (e, s)
         | Inr c \<Rightarrow>
            (let s1 = s\<lparr>current := c\<rparr> in
             case update_temperature s1 of
               Inl e \<Rightarrow> Inl (e, s1)
             | Inr s2 \<Rightarrow>
                (let s3 = s2\<lparr>current_time := current_time s2 + dt s2\<rparr> in
                 if callback s3
                 then Inr (s3\<lparr>delivered := delivered s3 @ [get_temperature_data s3]\<rparr>)
                 else Inr s3)))
      else Inr s)"

text \<open>
  The simulation thread. \<^verbatim>\<open>start()\<close> spawns a thread that runs \<^verbatim>\<open>run_simulation\<close>: the thread
  first sets \<^verbatim>\<open>running\<close>, then tests the loop condition and runs the body, again and again,
  and clears \<^verbatim>\<open>running\<close> when the condition fails; an exception ends the thread. The phase
  says where the thread is. One step of the thread is one of these moves. A pass of the loop
  is one step: the body reads \<^verbatim>\<open>paused\<close> once and writes neither flag, so a command that
  arrives during a pass has the effect of one that arrives just before or just after it.
\<close>

datatype phase = Created | Spawned | InLoop | Exited | Raised py_error

type_synonym engine = "phase \<times> simulator"

fun thread_step :: "engine \<Rightarrow> engine option" where
  "thread_step (Spawned, s) = Some (InLoop, s\<lparr>running := True\<rparr>)"
| "thread_step (InLoop, s) =
     (if loop_guard s then
        (case loop_body s of
           Inl (e, s') \<Rightarrow> Some (Raised e, s')
         | Inr s' \<Rightarrow> Some (InLoop, s'))
      else Some (Exited, s\<lparr>running := False\<rparr>))"
| "thread_step (Created, s) = None"
| "thread_step (Exited, s) = None"
| "thread_step (Raised e, s) = None"

fun thread_steps :: "nat \<Rightarrow> engine \<Rightarrow> engine option" where
  "thread_steps 0 eng = Some eng"
| "thread_steps (Suc n) eng =
     (case thread_step eng of None \<Rightarrow> None | Some eng' \<Rightarrow> thread_steps n eng')"


text \<open>
  \<^verbatim>\<open>run_simulation\<close> called directly, with no command arriving: the loop may run forever
  (a paused simulator, or a time step that is not positive), so it is given fuel, and
  \<open>None\<close> is the loop still running when the fuel is used up.
\<close>

fun run_loop :: "nat \<Rightarrow> simulator \<Rightarrow> (py_error \<times> simulator + simulator) option" where
  "run_loop 0 s = None"
| "run_loop (Suc n) s =
     (if loop_guard s then
        (case loop_body s of
           Inl err \<Rightarrow> Some (Inl err)
         | Inr s' \<Rightarrow> run_loop n s')
      else Some (Inr (s\<lparr>running := False\<rparr>)))"

definition run_simulation :: "nat \<Rightarrow> simulator \<Rightarrow> (py_error \<times> simulator + simulator) option" where
  "run_simulation fuel s = run_loop fuel (s\<lparr>running := True\<rparr>)"


text \<open>The simulator that the constructor builds from these parameters, with a callback.\<close>

definition sample_simulator :: simulator where
  "sample_simulator =
     \<lparr> radius = 9 / 1000, sim_height = 65 / 1000, k_cond = 3, cp_heat = 900, rho = 2500,
       T_init = 25, T_amb = 25, sim_capacity = 2500 / 1000, voltage = 3.2,
       resistance = 0.025, dt = 1, max_time = 100, current_profile = [(0, 2)],
       mesh_r = linspace_vals 0 (9 / 1000) nr, mesh_z = linspace_vals 0 (65 / 1000) nz,
       T_grid = (\<lambda>ir jz. 1 * 25), current_time = 0, current = Some 2, running = False,
       paused = False, callback = True, delivered = [] \<rparr>"

section \<open>Properties of the interpolation\<close>










section \<open>Properties of the discharge model\<close>

lemma length_linspace_vals: "length (linspace_vals a b n) = n"
  by (simp add: linspace_vals_def)

lemma linspace_vals_nth:
  assumes "2 \<le> n" "i < n"
  shows "linspace_vals a b n ! i = a + real i * ((b - a) / real (n - 1))"
proof (cases "i < n - 1")
  case True
  with assms show ?thesis by (simp add: linspace_vals_def nth_append)
next
  case False
  with assms have i: "i = n - 1" by simp
  with assms have "linspace_vals a b n ! i = b"
    by (simp add: linspace_vals_def nth_append)
  moreover from assms i have "a + real i * ((b - a) / real (n - 1)) = b" by simp
  ultimately show ?thesis by simp
qed


lemma run_result_series:
  assumes "linspace 0 (of_int (simulation_duration sim)) (simulation_duration sim * 6) = Inr tm"
  shows "\<exists>r emf tv cur res tmp. run_battery_simulation sim = Inr r \<and>
           emf_data r = Some \<lparr>time_axis = tm, samples = emf\<rparr> \<and>
           terminal_voltage_data r = Some \<lparr>time_axis = tm, samples = tv\<rparr> \<and>
           current_data r = Some \<lparr>time_axis = tm, samples = cur\<rparr> \<and>
           resistance_data r = Some \<lparr>time_axis = tm, samples = res,
              soc_fraction = map (\<lambda>t. max (initial_soc sim / 100 - (t / 60 * 0.2 / 5)) 0) tm\<rparr> \<and>
           soc_data r = Some \<lparr>time_axis = tm,
              samples = map (\<lambda>t. max (initial_soc sim / 100 - (t / 60 * 0.2 / 5)) 0 * 100) tm\<rparr> \<and>
           temperature_data r = Some \<lparr>time_axis = tm, samples = tmp\<rparr> \<and>
           length emf = length tm \<and> length tv = length tm \<and> length cur = length tm \<and>
           length res = length tm \<and> length tmp = length tm"
  using assms by (simp add: run_battery_simulation_def Let_def comp_def)

lemma valid_time_axis:
  assumes "valid_run_parameters sim"
  defines "n \<equiv> nat (simulation_duration sim * 6)"
  defines "tm \<equiv> linspace_vals 0 (of_int (simulation_duration sim)) n"
  shows "linspace 0 (of_int (simulation_duration sim)) (simulation_duration sim * 6) = Inr tm"
    and "length tm = n" and "int n = simulation_duration sim * 6" and "6 \<le> n"
    and "\<And>i. i < n \<Longrightarrow> tm ! i = real i * (of_int (simulation_duration sim) / real (n - 1))"
proof -
  from assms(1) have d: "0 < simulation_duration sim" by (simp add: valid_run_parameters_def)
  then show "linspace 0 (of_int (simulation_duration sim)) (simulation_duration sim * 6) = Inr tm"
    by (simp add: linspace_def tm_def n_def)
  show "length tm = n" by (simp add: tm_def length_linspace_vals)
  from d show "int n = simulation_duration sim * 6" by (simp add: n_def)
  from d show n6: "6 \<le> n" by (simp add: n_def)
  fix i assume "i < n"
  with n6 show "tm ! i = real i * (of_int (simulation_duration sim) / real (n - 1))"
    using linspace_vals_nth [of n i 0 "of_int (simulation_duration sim)"] by (simp add: tm_def)
qed

text \<open>
  C5. For valid run parameters the run succeeds, the six stored series carry one and the same
  time axis, and the axis and every series have \<open>duration_minutes * 6\<close> entries.
\<close>

theorem six_series_share_axis_and_length:
  assumes "valid_run_parameters sim"
  shows "\<exists>r tm emf tv cur res socf soc tmp.
           run_battery_simulation sim = Inr r \<and>
           emf_data r = Some \<lparr>time_axis = tm, samples = emf\<rparr> \<and>
           terminal_voltage_data r = Some \<lparr>time_axis = tm, samples = tv\<rparr> \<and>
           current_data r = Some \<lparr>time_axis = tm, samples = cur\<rparr> \<and>
           resistance_data r = Some \<lparr>time_axis = tm, samples = res, soc_fraction = socf\<rparr> \<and>
           soc_data r = Some \<lparr>time_axis = tm, samples = soc\<rparr> \<and>
           temperature_data r = Some \<lparr>time_axis = tm, samples = tmp\<rparr> \<and>
           int (length tm) = simulation_duration sim * 6 \<and>
           int (length emf) = simulation_duration sim * 6 \<and>
           int (length tv) = simulation_duration sim * 6 \<and>
           int (length cur) = simulation_duration sim * 6 \<and>
           int (length res) = simulation_duration sim * 6 \<and>
           int (length soc) = simulation_duration sim * 6 \<and>
           int (length tmp) = simulation_duration sim * 6"
proof -
  let ?n = "nat (simulation_duration sim * 6)"
  let ?tm = "linspace_vals 0 (of_int (simulation_duration sim)) ?n"
  note ax = valid_time_axis [OF assms]
  from run_result_series [OF ax(1)] obtain r emf tv cur res tmp where r:
    "run_battery_simulation sim = Inr r"
    "emf_data r = Some \<lparr>time_axis = ?tm, samples = emf\<rparr>"
    "terminal_voltage_data r = Some \<lparr>time_axis = ?tm, samples = tv\<rparr>"
    "current_data r = Some \<lparr>time_axis = ?tm, samples = cur\<rparr>"
    "resistance_data r = Some \<lparr>time_axis = ?tm, samples = res,
       soc_fraction = map (\<lambda>t. max (initial_soc sim / 100 - (t / 60 * 0.2 / 5)) 0) ?tm\<rparr>"
    "soc_data r = Some \<lparr>time_axis = ?tm,
       samples = map (\<lambda>t. max (initial_soc sim / 100 - (t / 60 * 0.2 / 5)) 0 * 100) ?tm\<rparr>"
    "temperature_data r = Some \<lparr>time_axis = ?tm, samples = tmp\<rparr>"
    "length emf = length ?tm" "length tv = length ?tm" "length cur = length ?tm"
    "length res = length ?tm" "length tmp = length ?tm"
    by blast
  have len: "int (length ?tm) = simulation_duration sim * 6"
    using ax(2) ax(3) by simp
  from r(8-12) len have
    "int (length emf) = simulation_duration sim * 6"
    "int (length tv) = simulation_duration sim * 6"
    "int (length cur) = simulation_duration sim * 6"
    "int (length res) = simulation_duration sim * 6"
    "int (length tmp) = simulation_duration sim * 6"
    by simp_all
  moreover have "int (length (map (\<lambda>t. max (initial_soc sim / 100 - (t / 60 * 0.2 / 5)) 0 * 100) ?tm))
      = simulation_duration sim * 6"
    using len by simp
  ultimately show ?thesis using r(1-7) len by blast
qed

theorem six_series_share_axis_and_length_witness:
  "valid_run_parameters sample_run \<and>
   (\<exists>r s. run_battery_simulation sample_run = Inr r \<and> temperature_data r = Some s \<and>
      int (length (samples s)) = 6 \<and> int (length (time_axis s)) = 6)"
proof -
  have v: "valid_run_parameters sample_run"
    by (simp add: valid_run_parameters_def sample_run_def)
  have d: "simulation_duration sample_run * 6 = 6" by (simp add: sample_run_def)
  from six_series_share_axis_and_length [OF v] obtain r tm tmp where
    "run_battery_simulation sample_run = Inr r"
    "temperature_data r = Some \<lparr>time_axis = tm, samples = tmp\<rparr>"
    "int (length tm) = simulation_duration sample_run * 6"
    "int (length tmp) = simulation_duration sample_run * 6"
    by blast
  with d have "run_battery_simulation sample_run = Inr r \<and>
      temperature_data r = Some \<lparr>time_axis = tm, samples = tmp\<rparr> \<and>
      int (length (samples \<lparr>time_axis = tm, samples = tmp\<rparr>)) = 6 \<and>
      int (length (time_axis \<lparr>time_axis = tm, samples = tmp\<rparr>)) = 6"
    by simp
  with v show ?thesis by blast
qed



section \<open>Properties of the thermal simulator\<close>




text \<open>
  C9. \<open>pause\<close> and \<open>resume\<close> are idempotent on the control flags: pausing twice is pausing
  once and leaves the simulator paused (the \<open>running\<close> flag is not touched), and resuming a
  simulator that is running and not paused changes nothing.
\<close>

theorem pause_resume_idempotent:
  "pause (pause s) = pause s \<and> paused (pause s) \<and> running (pause s) = running s \<and>
   (running s \<and> \<not> paused s \<longrightarrow> resume s = s)"
  by (simp add: pause_def resume_def)

theorem pause_resume_idempotent_witness:
  "running (sample_simulator\<lparr>running := True\<rparr>) \<and>
   \<not> paused (sample_simulator\<lparr>running := True\<rparr>) \<and>
   resume (sample_simulator\<lparr>running := True\<rparr>) = sample_simulator\<lparr>running := True\<rparr> \<and>
   pause (pause sample_simulator) = pause sample_simulator"
proof -
  have h: "running (sample_simulator\<lparr>running := True\<rparr>) \<and>
      \<not> paused (sample_simulator\<lparr>running := True\<rparr>)"
    by (simp add: sample_simulator_def)
  from pause_resume_idempotent [of "sample_simulator\<lparr>running := True\<rparr>"]
    pause_resume_idempotent [of sample_simulator] h
  show ?thesis by blast
qed


text \<open>
  The property needs the thread to be in the loop: a \<open>stop()\<close> that arrives after \<open>start()\<close>
  but before the thread has executed \<^verbatim>\<open>self.running = True\<close> is overwritten by it.
\<close>

lemma stop_before_loop_entry_is_overwritten:
  "thread_step (Spawned, stop s) = Some (InLoop, s\<lparr>running := True\<rparr>)"
  by (simp add: stop_def)



subsection \<open>The scenario of one hundred passes\<close>


lemma np_min_le_max: "np_min g \<le> np_max g"
proof -
  have "g 0 0 \<in> set (concat (tolist g))"
    by (auto simp: tolist_def nr_def nz_def intro!: bexI [of _ 0])
  then show ?thesis unfolding np_min_def np_max_def
    by (meson List.finite_set Max_ge Min_le order_trans)
qed

lemma get_current_const: "get_current [(0, 2)] t = Inr (Some 2)"
  by (auto simp: get_current_def dict_get_def Let_def)

lemma update_temperature_ok:
  assumes "current s \<noteq> None" "radius s \<noteq> 0" "sim_height s \<noteq> 0" "rho s * cp_heat s \<noteq> 0"
  shows "\<exists>g. update_temperature s = Inr (s\<lparr>T_grid := g\<rparr>)"
  using assms by (auto simp: update_temperature_def calculate_heat_generation_def Let_def)

lemma update_temperature_shape:
  assumes "update_temperature s = Inr s'"
  shows "\<exists>g. s' = s\<lparr>T_grid := g\<rparr>"
  using assms by (auto simp: update_temperature_def Let_def split: sum.splits if_splits)

text \<open>What one pass of the loop does to a simulator that is not paused and has a callback.\<close>

lemma loop_body_shape:
  assumes "\<not> paused s" "callback s" "loop_body s = Inr s'"
  shows "\<exists>c g snap. s' = s\<lparr>current := c, T_grid := g, current_time := current_time s + dt s,
            delivered := delivered s @ [snap]\<rparr> \<and>
          snap_time snap = current_time s + dt s \<and> min_temp snap \<le> max_temp snap"
proof -
  from assms obtain c s2 where c: "get_current (current_profile s) (current_time s) = Inr c"
    and s2: "update_temperature (s\<lparr>current := c\<rparr>) = Inr s2"
    by (auto simp: loop_body_def Let_def split: sum.splits)
  from update_temperature_shape [OF s2] obtain g where g: "s2 = s\<lparr>current := c, T_grid := g\<rparr>"
    by auto
  let ?s3 = "s2\<lparr>current_time := current_time s2 + dt s2\<rparr>"
  from assms c s2 g have s': "s' = ?s3\<lparr>delivered := delivered ?s3 @ [get_temperature_data ?s3]\<rparr>"
    by (simp add: loop_body_def Let_def)
  have "snap_time (get_temperature_data ?s3) = current_time s + dt s"
    using g by (simp add: get_temperature_data_def)
  moreover have "min_temp (get_temperature_data ?s3) \<le> max_temp (get_temperature_data ?s3)"
    by (simp add: get_temperature_data_def np_min_le_max)
  moreover have "s' = s\<lparr>current := c, T_grid := g, current_time := current_time s + dt s,
            delivered := delivered s @ [get_temperature_data ?s3]\<rparr>"
    using s' g by simp
  ultimately show ?thesis by blast
qed

lemma loop_body_ok:
  assumes "\<not> paused s" "current_profile s = [(0, 2)]"
    "radius s \<noteq> 0" "sim_height s \<noteq> 0" "rho s * cp_heat s \<noteq> 0"
  shows "\<exists>s'. loop_body s = Inr s'"
proof -
  from assms have "\<exists>g. update_temperature (s\<lparr>current := Some 2\<rparr>) = Inr (s\<lparr>current := Some 2, T_grid := g\<rparr>)"
    using update_temperature_ok [of "s\<lparr>current := Some 2\<rparr>"] by simp
  with assms show ?thesis
    by (auto simp: loop_body_def get_current_const Let_def)
qed

text \<open>
  The state after \<open>m\<close> completed passes of a loop that started at time 0 with no snapshot
  delivered: the simulated time is \<open>m\<close>, and the snapshots carry the times \<open>1, \<dots>, m\<close>.
\<close>

lemma passes_invariant:
  assumes "thread_steps m (InLoop, s) = Some (InLoop, s')"
    and "\<not> paused s" "callback s" "dt s = 1"
  shows "\<not> paused s' \<and> callback s' \<and> dt s' = 1 \<and> max_time s' = max_time s \<and>
         current_time s' = current_time s + real m \<and>
         (\<exists>snaps. delivered s' = delivered s @ snaps \<and>
            map snap_time snaps = map (\<lambda>i. current_time s + real i) [1..<Suc m] \<and>
            (\<forall>snap \<in> set snaps. min_temp snap \<le> max_temp snap))"
  using assms
proof (induction m arbitrary: s)
  case 0
  then show ?case by simp
next
  case (Suc m)
  from Suc.prems(1) obtain s1 where g: "loop_guard s" and b: "loop_body s = Inr s1"
    and rest: "thread_steps m (InLoop, s1) = Some (InLoop, s')"
    by (cases m) (auto split: if_splits sum.splits option.splits prod.splits)
  from loop_body_shape [OF Suc.prems(2,3) b] obtain c g1 snap where
    s1: "s1 = s\<lparr>current := c, T_grid := g1, current_time := current_time s + dt s,
            delivered := delivered s @ [snap]\<rparr>"
    and snap: "snap_time snap = current_time s + dt s" "min_temp snap \<le> max_temp snap"
    by blast
  from s1 Suc.prems have p1: "\<not> paused s1" "callback s1" "dt s1 = 1" by simp_all
  from Suc.IH [OF rest p1] obtain snaps where
    inv: "\<not> paused s'" "callback s'" "dt s' = 1" "max_time s' = max_time s1"
      "current_time s' = current_time s1 + real m"
    and d: "delivered s' = delivered s1 @ snaps"
      "map snap_time snaps = map (\<lambda>i. current_time s1 + real i) [1..<Suc m]"
      "\<forall>snap \<in> set snaps. min_temp snap \<le> max_temp snap"
    by blast
  have t1: "current_time s1 = current_time s + 1" using s1 Suc.prems(4) by simp
  have "map snap_time (snap # snaps) = map (\<lambda>i. current_time s + real i) [1..<Suc (Suc m)]"
  proof -
    have "[1..<Suc (Suc m)] = 1 # map Suc [1..<Suc m]"
      by (metis One_nat_def map_Suc_upt upt_conv_Cons zero_less_Suc Suc_less_eq)
    then show ?thesis using d(2) snap(1) t1 Suc.prems(4) by (simp add: comp_def algebra_simps)
  qed
  moreover have "delivered s' = delivered s @ (snap # snaps)" using d(1) s1 by simp
  moreover have "\<forall>x \<in> set (snap # snaps). min_temp x \<le> max_temp x" using d(3) snap(2) by simp
  ultimately have "\<exists>snaps. delivered s' = delivered s @ snaps \<and>
            map snap_time snaps = map (\<lambda>i. current_time s + real i) [1..<Suc (Suc m)] \<and>
            (\<forall>snap \<in> set snaps. min_temp snap \<le> max_temp snap)"
    by blast
  moreover have "current_time s' = current_time s + real (Suc m)" using inv(5) t1 by simp
  moreover have "max_time s' = max_time s" using inv(4) s1 by simp
  ultimately show ?case using inv(1-3) by blast
qed

lemma loop_body_static:
  assumes "loop_body s = Inr s'"
  shows "paused s' = paused s \<and> running s' = running s \<and>
         current_profile s' = current_profile s \<and> dt s' = dt s \<and> max_time s' = max_time s \<and>
         radius s' = radius s \<and> sim_height s' = sim_height s \<and> rho s' = rho s \<and>
         cp_heat s' = cp_heat s \<and> (\<not> paused s \<longrightarrow> current_time s' = current_time s + dt s)"
proof (cases "paused s")
  case True
  with assms show ?thesis by (simp add: loop_body_def)
next
  case False
  with assms obtain c s2 where s2: "update_temperature (s\<lparr>current := c\<rparr>) = Inr s2"
    and s': "s' = s2\<lparr>current_time := current_time s2 + dt s2\<rparr> \<or>
       s' = s2\<lparr>current_time := current_time s2 + dt s2,
                delivered := delivered (s2\<lparr>current_time := current_time s2 + dt s2\<rparr>) @
                  [get_temperature_data (s2\<lparr>current_time := current_time s2 + dt s2\<rparr>)]\<rparr>"
    by (auto simp: loop_body_def Let_def split: sum.splits if_splits)
  from update_temperature_shape [OF s2] obtain g where "s2 = s\<lparr>current := c, T_grid := g\<rparr>"
    by auto
  with s' False show ?thesis by auto
qed

lemma passes_exist:
  assumes "\<not> paused s" "running s" "current_profile s = [(0, 2)]" "dt s = 1"
    and "radius s \<noteq> 0" "sim_height s \<noteq> 0" "rho s * cp_heat s \<noteq> 0"
    and "current_time s + real m \<le> max_time s"
  shows "\<exists>s'. thread_steps m (InLoop, s) = Some (InLoop, s')"
  using assms
proof (induction m arbitrary: s)
  case 0
  then show ?case by simp
next
  case (Suc m)
  from Suc.prems have g: "loop_guard s" by (simp add: loop_guard_def)
  from loop_body_ok [OF Suc.prems(1,3,5,6,7)] obtain s1 where b: "loop_body s = Inr s1"
    by blast
  note st = loop_body_static [OF b]
  from st Suc.prems have "\<not> paused s1" "running s1" "current_profile s1 = [(0, 2)]" "dt s1 = 1"
    "radius s1 \<noteq> 0" "sim_height s1 \<noteq> 0" "rho s1 * cp_heat s1 \<noteq> 0"
    "current_time s1 + real m \<le> max_time s1"
    by simp_all
  from Suc.IH [OF this] obtain s' where "thread_steps m (InLoop, s1) = Some (InLoop, s')"
    by blast
  with g b show ?case by simp
qed





subsection \<open>The whole run\<close>

text \<open>
  A paused simulator whose loop condition holds spins without advancing: no amount of fuel
  makes \<open>run_loop\<close> return.
\<close>

lemma run_loop_paused: "paused s \<Longrightarrow> loop_guard s \<Longrightarrow> run_loop n s = None"
  by (induction n) (simp_all add: loop_body_def)

text \<open>
  When the thread has made its passes and the loop condition fails, \<^verbatim>\<open>run_simulation\<close> returns
  with \<open>running\<close> cleared.
\<close>

lemma run_loop_thread_steps:
  assumes "thread_steps n (InLoop, s) = Some (InLoop, s')" "\<not> loop_guard s'"
  shows "run_loop (Suc n) s = Some (Inr (s'\<lparr>running := False\<rparr>))"
  using assms
proof (induction n arbitrary: s)
  case 0
  then show ?case by simp
next
  case (Suc n)
  from Suc.prems(1) obtain s1 where g: "loop_guard s" and b: "loop_body s = Inr s1"
    and rest: "thread_steps n (InLoop, s1) = Some (InLoop, s')"
    by (cases n) (auto split: if_splits sum.splits option.splits prod.splits)
  from Suc.IH [OF rest Suc.prems(2)] g b show ?case by simp
qed

text \<open>
  With a maximal time of 100 seconds the run of the sample simulator returns after its
  100 passes, with 100 snapshots delivered.
\<close>

lemma sample_run_simulation_returns:
  "\<exists>s'. run_simulation 101 sample_simulator = Some (Inr s') \<and> \<not> running s' \<and>
     current_time s' = 100 \<and> length (delivered s') = 100"
proof -
  let ?s = "sample_simulator\<lparr>running := True\<rparr>"
  have "\<exists>s'. thread_steps 100 (InLoop, ?s) = Some (InLoop, s')"
    by (rule passes_exist) (simp_all add: sample_simulator_def)
  then obtain s1 where run: "thread_steps 100 (InLoop, ?s) = Some (InLoop, s1)" by blast
  have "\<not> paused ?s" "callback ?s" "dt ?s = 1" by (simp_all add: sample_simulator_def)
  from passes_invariant [OF run this] obtain snaps where
    inv: "max_time s1 = max_time ?s" "current_time s1 = current_time ?s + real (100::nat)"
      "delivered s1 = delivered ?s @ snaps"
      "map snap_time snaps = map (\<lambda>i. current_time ?s + real i) [1..<Suc 100]"
    by blast
  have "length (map snap_time snaps) = 100" unfolding inv(4) by simp
  then have len: "length (delivered s1) = 100" using inv(3) by (simp add: sample_simulator_def)
  have t: "current_time s1 = 100" "max_time s1 = 100"
    using inv(1,2) by (simp_all add: sample_simulator_def)
  then have "\<not> loop_guard s1" by (simp add: loop_guard_def)
  from run_loop_thread_steps [OF run this]
  have "run_loop (Suc 100) ?s = Some (Inr (s1\<lparr>running := False\<rparr>))" .
  then have "run_simulation 101 sample_simulator = Some (Inr (s1\<lparr>running := False\<rparr>))"
    by (simp add: run_simulation_def)
  with t len show ?thesis by simp
qed


section \<open>Input checks of the run and of the constructor\<close>






section \<open>The volume of a cell\<close>








end
